theory Spec2Isabelle
  imports Complex_Main "HOL-Library.Word"
begin

section \<open>Shared vocabulary\<close>

text \<open>
  The kinetics manager of \<^verbatim>\<open>include/cantera/kinetics/Kinetics.h\<close> stores its counters
  and offsets as \<^verbatim>\<open>size_t\<close>.  A \<^verbatim>\<open>size_t\<close> that the code stores and computes with
  (\<^verbatim>\<open>m_kk\<close>, the entries of \<^verbatim>\<open>m_start\<close>, the positions kept in \<^verbatim>\<open>m_phaseindex\<close>, a
  species index \<^verbatim>\<open>k\<close>) is a 64-bit word, so that \<^verbatim>\<open>+\<close> and \<^verbatim>\<open>-\<close> wrap as they do in
  the program.  A \<^verbatim>\<open>size_t\<close> that is only the position of an element in a
  \<^verbatim>\<open>std::vector\<close> (a reaction index, a phase index) is a \<^typ>\<open>nat\<close>, and every
  read outside the vector is a separate branch of the model.
\<close>

type_synonym size_t = "64 word"

text \<open>
  The not-found sentinel \<^verbatim>\<open>npos\<close>: \<open>- 1\<close> as a \<^verbatim>\<open>size_t\<close> (the header, on
  \<^verbatim>\<open>phaseIndex\<close>: "If a -1 is returned, then the phase is not defined").
\<close>

definition npos :: size_t where
  "npos = - 1"

text \<open>The exceptions the modelled code throws, with the arguments of their constructors.\<close>

datatype exn =
    CanteraError string string
  | IndexError string string nat nat
  | ArraySizeError string nat nat
  | NotImplementedError string "string option"
  | std_out_of_range

text \<open>\<^verbatim>\<open>'{}'\<close> in a format string: the argument between two apostrophes.\<close>

definition squote :: "string \<Rightarrow> string" where
  "squote t = CHR 0x27 # t @ [CHR 0x27]"

text \<open>Whether the text \<open>t\<close> occurs in \<open>hay\<close> as a contiguous run of characters.\<close>

fun starts_with :: "string \<Rightarrow> string \<Rightarrow> bool" where
  "starts_with hay [] = True"
| "starts_with [] (c # t) = False"
| "starts_with (h # hay) (c # t) = (h = c \<and> starts_with hay t)"

fun occurs_in :: "string \<Rightarrow> string \<Rightarrow> bool" where
  "occurs_in t [] = starts_with [] t"
| "occurs_in t (h # hay) = (starts_with (h # hay) t \<or> occurs_in t hay)"

section \<open>The kinetics manager: data\<close>

text \<open>
  Modelled from the spec: class \<^verbatim>\<open>ThermoPhase\<close> (only forward-declared in Kinetics.h).
  The specification lists what the manager consumes of a phase; the index needs its
  name and its "species count".
\<close>

record ThermoPhase =
  name :: string
  nSpecies :: size_t

text \<open>
  Modelled from the spec: class \<^verbatim>\<open>Reaction\<close> (only forward-declared in Kinetics.h).
  The specification: a record of "reactants: map<species-id, coefficient>, products:
  map<species-id, coefficient>, ..., reversible: bool, duplicate: bool"; the species
  identifier is the species index in the manager.
\<close>

record Reaction =
  reactants :: "(size_t \<times> real) list"
  products :: "(size_t \<times> real) list"
  reversible :: bool
  duplicate :: bool

text \<open>
  Modelled from the spec: the sparse matrix type behind \<^verbatim>\<open>m_stoichMatrix\<close> and the
  stoichiometry managers (Eigen and StoichManager.h are not among the sources).  The
  specification: a "sparse matrix of shape (total species) x (total reactions)".  It is
  the list of stored entries, keyed by (species, reaction); a coefficient that is not
  stored reads as zero.
\<close>

type_synonym SparseMatrix = "((size_t \<times> nat) \<times> real) list"

definition coeff :: "SparseMatrix \<Rightarrow> size_t \<Rightarrow> nat \<Rightarrow> real" where
  "coeff M k i = (case map_of M (k, i) of None \<Rightarrow> 0 | Some v \<Rightarrow> v)"

text \<open>
  Modelled from the spec: class \<^verbatim>\<open>ValueCache\<close> (ValueCache.h is not among the sources).
  The specification: a "mapping from an opaque computation key ... to a previously
  computed result"; \<^verbatim>\<open>clear()\<close> empties it.
\<close>

type_synonym ValueCache = "nat \<rightharpoonup> real list"

text \<open>The data members of class \<^verbatim>\<open>Kinetics\<close> (Kinetics.h, lines 1432-1563).\<close>

record Kinetics =
  m_cache :: ValueCache
  m_reactantStoich :: SparseMatrix
  m_productStoich :: SparseMatrix
  m_revProductStoich :: SparseMatrix
  m_stoichMatrix :: SparseMatrix
  m_ready :: bool
  m_kk :: size_t
  m_perturb :: "real list"
  m_reactions :: "Reaction list"
  m_thermo :: "ThermoPhase list"
  m_start :: "size_t list"
  m_phaseindex :: "string \<rightharpoonup> size_t"
  m_revindex :: "nat list"
  m_irrev :: "nat list"
  m_skipUndeclaredSpecies :: bool

text \<open>The default constructor: every container empty, every member at its initialiser.\<close>

definition Kinetics_new :: Kinetics where
  "Kinetics_new = \<lparr> m_cache = Map.empty, m_reactantStoich = [], m_productStoich = [],
     m_revProductStoich = [], m_stoichMatrix = [], m_ready = False, m_kk = 0,
     m_perturb = [], m_reactions = [], m_thermo = [], m_start = [],
     m_phaseindex = Map.empty, m_revindex = [], m_irrev = [],
     m_skipUndeclaredSpecies = False \<rparr>"

section \<open>Species and phase index\<close>

text \<open>
  \<^verbatim>\<open>nReactions()\<close> (lines 153-155), \<^verbatim>\<open>nPhases()\<close> (lines 185-187) and
  \<^verbatim>\<open>nTotalSpecies()\<close> (lines 252-254).
\<close>

definition nReactions :: "Kinetics \<Rightarrow> nat" where
  "nReactions s = length (m_reactions s)"

definition nPhases :: "Kinetics \<Rightarrow> nat" where
  "nPhases s = length (m_thermo s)"

definition nTotalSpecies :: "Kinetics \<Rightarrow> size_t" where
  "nTotalSpecies s = m_kk s"

text \<open>\<^verbatim>\<open>std::map::at\<close>: the stored value, or \<^verbatim>\<open>std::out_of_range\<close> for a missing key.\<close>

definition map_at :: "('k \<rightharpoonup> 'v) \<Rightarrow> 'k \<Rightarrow> exn + 'v" where
  "map_at m k = (case m k of None \<Rightarrow> Inl std_out_of_range | Some v \<Rightarrow> Inr v)"

text \<open>
  \<^verbatim>\<open>phaseIndex\<close> (Kinetics.h, lines 207-213): \<^verbatim>\<open>find\<close> guards the \<^verbatim>\<open>at\<close>, and the
  subtraction is the one of \<^verbatim>\<open>size_t\<close>.
\<close>

definition phaseIndex :: "Kinetics \<Rightarrow> string \<Rightarrow> exn + size_t" where
  "phaseIndex s ph =
     (if m_phaseindex s ph = None then Inr npos
      else (case map_at (m_phaseindex s) ph of
              Inl e \<Rightarrow> Inl e
            | Inr p \<Rightarrow> Inr (p - 1)))"

text \<open>
  \<^verbatim>\<open>kineticsSpeciesIndex(k, n)\<close> (Kinetics.h, lines 274-276) returns
  \<^verbatim>\<open>m_start[n] + k\<close>.  The read \<^verbatim>\<open>m_start[n]\<close> is unchecked: outside the vector the
  behaviour is undefined, which is the value \<open>None\<close> here.
\<close>

definition kineticsSpeciesIndex :: "Kinetics \<Rightarrow> size_t \<Rightarrow> nat \<Rightarrow> size_t option" where
  "kineticsSpeciesIndex s k n =
     (if n < length (m_start s) then Some (m_start s ! n + k) else None)"

text \<open>
  Modelled from the spec: \<^verbatim>\<open>Kinetics::addThermo\<close> (declared at Kinetics.h line 1268,
  defined in Kinetics.cpp, which is not among the sources).  The specification: it
  "appends a phase, extends \<^verbatim>\<open>start[]\<close>, updates \<^verbatim>\<open>kk\<close>", where \<^verbatim>\<open>start[n]\<close> is the
  "cumulative offset before phase n" and \<^verbatim>\<open>kk = sum(nSpecies)\<close>; the header adds that
  \<^verbatim>\<open>m_phaseindex\<close> maps the name of the phase to its position, counted from 1.
\<close>

definition addThermo :: "ThermoPhase \<Rightarrow> Kinetics \<Rightarrow> Kinetics" where
  "addThermo thermo s =
     s\<lparr> m_thermo := m_thermo s @ [thermo],
        m_phaseindex := (m_phaseindex s)(name thermo \<mapsto> of_nat (length (m_thermo s) + 1)),
        m_start := m_start s @ [m_kk s],
        m_kk := m_kk s + nSpecies thermo \<rparr>"

section \<open>Multipliers, the value cache and the inline accessors\<close>

text \<open>
  \<^verbatim>\<open>multiplier(i)\<close> (Kinetics.h, lines 1367-1369) and \<^verbatim>\<open>setMultiplier(i, f)\<close> (lines
  1376-1378) index \<^verbatim>\<open>m_perturb\<close> without a check; outside the vector the behaviour is
  undefined (\<open>None\<close>).  The body of \<^verbatim>\<open>setMultiplier\<close> is the single assignment
  \<^verbatim>\<open>m_perturb[i] = f\<close>.
\<close>

definition multiplier :: "Kinetics \<Rightarrow> nat \<Rightarrow> real option" where
  "multiplier s i = (if i < length (m_perturb s) then Some (m_perturb s ! i) else None)"

definition setMultiplier :: "nat \<Rightarrow> real \<Rightarrow> Kinetics \<Rightarrow> Kinetics option" where
  "setMultiplier i f s =
     (if i < length (m_perturb s) then Some (s\<lparr> m_perturb := (m_perturb s)[i := f] \<rparr>)
      else None)"

text \<open>\<^verbatim>\<open>invalidateCache()\<close> (lines 1380-1382): \<^verbatim>\<open>m_cache.clear()\<close>.\<close>

definition invalidateCache :: "Kinetics \<Rightarrow> Kinetics" where
  "invalidateCache s = s\<lparr> m_cache := Map.empty \<rparr>"

text \<open>
  \<^verbatim>\<open>isReversible(i)\<close> (lines 1206-1208): \<^verbatim>\<open>std::find\<close> over \<^verbatim>\<open>m_revindex\<close>; the result
  is whether \<open>i\<close> was found.
\<close>

definition isReversible :: "Kinetics \<Rightarrow> nat \<Rightarrow> bool" where
  "isReversible s i = (find (\<lambda>j. j = i) (m_revindex s) \<noteq> None)"

text \<open>\<^verbatim>\<open>phase(n)\<close> (lines 227-229): \<^verbatim>\<open>m_thermo[n]\<close>, unchecked.\<close>

definition phase :: "Kinetics \<Rightarrow> nat \<Rightarrow> ThermoPhase option" where
  "phase s n = (if n < length (m_thermo s) then Some (m_thermo s ! n) else None)"

section \<open>Checked indices and array sizes\<close>

text \<open>
  Modelled from the spec: \<^verbatim>\<open>checkReactionIndex\<close>, \<^verbatim>\<open>checkSpeciesIndex\<close>,
  \<^verbatim>\<open>checkPhaseIndex\<close> and the three \<^verbatim>\<open>check...ArraySize\<close> operations (declared at
  Kinetics.h lines 157-196, defined in Kinetics.cpp, which is not among the sources).
  The specification: an index "outside valid bounds" is "raised immediately by checked
  accessors", one past the valid count included; bulk array arguments are "validated
  against \<^verbatim>\<open>nReactions()\<close>/\<^verbatim>\<open>nTotalSpecies()\<close> with a checked-size operation that fails
  fast", and the header: the size check throws if the size "is less than" the count.
\<close>

definition checkReactionIndex :: "Kinetics \<Rightarrow> nat \<Rightarrow> exn + unit" where
  "checkReactionIndex s i =
     (if nReactions s \<le> i
      then Inl (IndexError ''Kinetics::checkReactionIndex'' ''reactions'' i (nReactions s))
      else Inr ())"

text \<open>
  Modelled from the spec: \<^verbatim>\<open>checkSpeciesIndex\<close> (declared at line 168), as
  \<^verbatim>\<open>checkReactionIndex\<close>, against \<^verbatim>\<open>nTotalSpecies()\<close>.
\<close>

definition checkSpeciesIndex :: "Kinetics \<Rightarrow> size_t \<Rightarrow> exn + unit" where
  "checkSpeciesIndex s k =
     (if m_kk s \<le> k
      then Inl (IndexError ''Kinetics::checkSpeciesIndex'' ''species'' (unat k) (unat (m_kk s)))
      else Inr ())"

text \<open>
  Modelled from the spec: \<^verbatim>\<open>checkPhaseIndex\<close> (declared at line 191), as
  \<^verbatim>\<open>checkReactionIndex\<close>, against \<^verbatim>\<open>nPhases()\<close>.
\<close>

definition checkPhaseIndex :: "Kinetics \<Rightarrow> nat \<Rightarrow> exn + unit" where
  "checkPhaseIndex s m =
     (if nPhases s \<le> m
      then Inl (IndexError ''Kinetics::checkPhaseIndex'' ''phase'' m (nPhases s))
      else Inr ())"

text \<open>
  Modelled from the spec: \<^verbatim>\<open>checkReactionArraySize\<close> (declared at line 164); the
  header: "Throws an exception if ii is less than nReactions()".
\<close>

definition checkReactionArraySize :: "Kinetics \<Rightarrow> nat \<Rightarrow> exn + unit" where
  "checkReactionArraySize s ii =
     (if ii < nReactions s
      then Inl (ArraySizeError ''Kinetics::checkReactionArraySize'' ii (nReactions s))
      else Inr ())"

text \<open>
  Modelled from the spec: \<^verbatim>\<open>checkSpeciesArraySize\<close> (declared at line 173); the header:
  "Throws an exception if kk is less than nSpecies()".
\<close>

definition checkSpeciesArraySize :: "Kinetics \<Rightarrow> size_t \<Rightarrow> exn + unit" where
  "checkSpeciesArraySize s mm =
     (if mm < m_kk s
      then Inl (ArraySizeError ''Kinetics::checkSpeciesArraySize'' (unat mm) (unat (m_kk s)))
      else Inr ())"

text \<open>
  Modelled from the spec: \<^verbatim>\<open>checkPhaseArraySize\<close> (declared at line 196); the header:
  "Throws an exception if mm is less than nPhases()".
\<close>

definition checkPhaseArraySize :: "Kinetics \<Rightarrow> nat \<Rightarrow> exn + unit" where
  "checkPhaseArraySize s mm =
     (if mm < nPhases s
      then Inl (ArraySizeError ''Kinetics::checkPhaseArraySize'' mm (nPhases s))
      else Inr ())"

section \<open>Stoichiometry matrices\<close>

text \<open>
  Modelled from the spec: the stoichiometry managers and the bodies of
  \<^verbatim>\<open>reactantStoichCoeff\<close>, \<^verbatim>\<open>productStoichCoeff\<close>, \<^verbatim>\<open>addReaction\<close> and
  \<^verbatim>\<open>resizeReactions\<close> (StoichManager.h and Kinetics.cpp are not among the sources; the
  header declares the operations and the members \<^verbatim>\<open>m_reactantStoich\<close>,
  \<^verbatim>\<open>m_productStoich\<close>, \<^verbatim>\<open>m_revProductStoich\<close>, \<^verbatim>\<open>m_stoichMatrix\<close> and \<^verbatim>\<open>m_ready\<close>).
  The specification, on the matrices: "entries are set once when a reaction is added and
  re-derived whenever reactions are resized; net stoichiometric matrix is always
  product - reactant and is never stored independently in a way that can drift from
  this identity", and "the index arrays and stoichiometry matrices are resized in
  lockstep whenever a reaction is added, and finalized by a resize/validation pass".
  This first definition is \<^verbatim>\<open>reactantStoichCoeff\<close> (declared at line 1133), the entry
  of the reactant matrix.
\<close>

definition reactantStoichCoeff :: "Kinetics \<Rightarrow> size_t \<Rightarrow> nat \<Rightarrow> real" where
  "reactantStoichCoeff s k i = coeff (m_reactantStoich s) k i"

text \<open>
  Modelled from the spec: \<^verbatim>\<open>productStoichCoeff\<close> (declared at line 1148), the entry of
  the product matrix.
\<close>

definition productStoichCoeff :: "Kinetics \<Rightarrow> size_t \<Rightarrow> nat \<Rightarrow> real" where
  "productStoichCoeff s k i = coeff (m_productStoich s) k i"

text \<open>
  Modelled from the spec: the net coefficient \<^verbatim>\<open>netCoefficient(k, i)\<close> of the
  specification, the entry of the member \<^verbatim>\<open>m_stoichMatrix\<close> (line 1474, "Net
  stoichiometry (products - reactants)").
\<close>

definition netStoichCoeff :: "Kinetics \<Rightarrow> size_t \<Rightarrow> nat \<Rightarrow> real" where
  "netStoichCoeff s k i = coeff (m_stoichMatrix s) k i"

text \<open>
  Modelled from the spec: the insertion of a reaction into a stoichiometry matrix, the
  column of reaction \<open>i\<close> built from one coefficient map of the reaction.
\<close>

definition stoich_column :: "(size_t \<times> real) list \<Rightarrow> nat \<Rightarrow> SparseMatrix" where
  "stoich_column cs i = map (\<lambda>(k, v). ((k, i), v)) cs"

text \<open>
  Modelled from the spec: "net = product - reactant", the entry-wise difference of two
  sparse matrices, over the entries either one stores.
\<close>

definition matrix_minus :: "SparseMatrix \<Rightarrow> SparseMatrix \<Rightarrow> SparseMatrix" where
  "matrix_minus P R =
     map (\<lambda>(k, i). ((k, i), coeff P k i - coeff R k i)) (remdups (map fst P @ map fst R))"

text \<open>
  Modelled from the spec: \<^verbatim>\<open>Kinetics::resizeReactions\<close> (declared at line 150,
  "Finalize Kinetics object"): the net matrix is re-derived and the manager is ready.
\<close>

definition resizeReactions :: "Kinetics \<Rightarrow> Kinetics" where
  "resizeReactions s =
     s\<lparr> m_stoichMatrix := matrix_minus (m_productStoich s) (m_reactantStoich s),
        m_ready := True \<rparr>"

text \<open>
  The identity between the three matrices at every species and reaction, as the accessors
  read them.
\<close>

definition stoich_consistent :: "Kinetics \<Rightarrow> bool" where
  "stoich_consistent s =
     (\<forall>k i. netStoichCoeff s k i = productStoichCoeff s k i - reactantStoichCoeff s k i)"

text \<open>
  Modelled from the spec: "every species referenced exists in a registered phase".
\<close>

definition declared_species :: "Kinetics \<Rightarrow> Reaction \<Rightarrow> bool" where
  "declared_species s r = list_all (\<lambda>k. k < m_kk s) (map fst (reactants r @ products r))"

text \<open>
  Modelled from the spec: \<^verbatim>\<open>Kinetics::addReaction\<close> (declared at line 1299).  The
  specification: it "validates that every species referenced exists in a registered
  phase (or is silently skipped per \<^verbatim>\<open>skipUndeclaredSpecies\<close> policy), inserts it into
  stoichiometry matrices ..., marks it reversible/irreversible, and optionally triggers
  a resize pass; returns whether it was actually added".  The three matrices and the net
  matrix change in lockstep: the columns of the reaction are inserted and the net matrix
  is the difference of the new product and reactant matrices, whether or not the resize
  pass follows.  The multiplier of a new reaction is one (line 1485), the cache is
  "invalidated wholesale whenever ... the reaction set ... changes", and the manager is
  ready only after the resize pass.
\<close>

definition addReaction :: "Reaction \<Rightarrow> bool \<Rightarrow> Kinetics \<Rightarrow> exn + bool \<times> Kinetics" where
  "addReaction r resize s =
     (if \<not> declared_species s r then
        (if m_skipUndeclaredSpecies s then Inr (False, s)
         else Inl (CanteraError ''Kinetics::addReaction'' ''undeclared species''))
      else
        (let i = nReactions s;
             R = m_reactantStoich s @ stoich_column (reactants r) i;
             P = m_productStoich s @ stoich_column (products r) i;
             s' = s\<lparr> m_reactantStoich := R,
                     m_productStoich := P,
                     m_revProductStoich := m_revProductStoich s @
                        (if reversible r then stoich_column (products r) i else []),
                     m_stoichMatrix := matrix_minus P R,
                     m_revindex := m_revindex s @ (if reversible r then [i] else []),
                     m_irrev := m_irrev s @ (if reversible r then [] else [i]),
                     m_reactions := m_reactions s @ [r],
                     m_perturb := m_perturb s @ [1],
                     m_cache := Map.empty,
                     m_ready := False \<rparr>
         in Inr (True, if resize then resizeReactions s' else s')))"

text \<open>A sequence of construction calls; the first exception ends it.\<close>

datatype kin_op = AddReaction Reaction bool | ResizeReactions

fun run_op :: "kin_op \<Rightarrow> Kinetics \<Rightarrow> exn + Kinetics" where
  "run_op (AddReaction r resize) s =
     (case addReaction r resize s of Inl e \<Rightarrow> Inl e | Inr (added, s') \<Rightarrow> Inr s')"
| "run_op ResizeReactions s = Inr (resizeReactions s)"

fun run_ops :: "kin_op list \<Rightarrow> Kinetics \<Rightarrow> exn + Kinetics" where
  "run_ops [] s = Inr s"
| "run_ops (c # cs) s = (case run_op c s of Inl e \<Rightarrow> Inl e | Inr s' \<Rightarrow> run_ops cs s')"

section \<open>Operations a subtype need not support\<close>

text \<open>
  The virtual operations of class \<^verbatim>\<open>Kinetics\<close> whose base implementation only throws
  \<^verbatim>\<open>NotImplementedError\<close>, in the order of the header.  A subtype that does not override
  one of them inherits this body; the one thing the body reads of the object is
  \<^verbatim>\<open>kineticsType()\<close>, the type name of the concrete manager, passed here as \<open>kt\<close>.
\<close>

datatype virtual_op =
    op_getEquilibriumConstants
  | op_getDeltaGibbs
  | op_getDeltaElectrochemPotentials
  | op_getDeltaEnthalpy
  | op_getDeltaEntropy
  | op_getDeltaSSGibbs
  | op_getDeltaSSEnthalpy
  | op_getDeltaSSEntropy
  | op_getThirdBodyConcentrations
  | op_thirdBodyConcentrations
  | op_getDerivativeSettings
  | op_setDerivativeSettings
  | op_getFwdRateConstants_ddT
  | op_getFwdRateConstants_ddP
  | op_getFwdRateConstants_ddC
  | op_getFwdRatesOfProgress_ddT
  | op_getFwdRatesOfProgress_ddP
  | op_getFwdRatesOfProgress_ddC
  | op_fwdRatesOfProgress_ddX
  | op_fwdRatesOfProgress_ddCi
  | op_getRevRatesOfProgress_ddT
  | op_getRevRatesOfProgress_ddP
  | op_getRevRatesOfProgress_ddC
  | op_revRatesOfProgress_ddX
  | op_revRatesOfProgress_ddCi
  | op_getNetRatesOfProgress_ddT
  | op_getNetRatesOfProgress_ddP
  | op_getNetRatesOfProgress_ddC
  | op_netRatesOfProgress_ddX
  | op_netRatesOfProgress_ddCi
  | op_reactantOrder
  | op_productOrder
  | op_getActivityConcentrations
  | op_getFwdRateConstants
  | op_getRevRateConstants
  | op_updateROP

text \<open>
  The three forms of the \<^verbatim>\<open>throw\<close> in the header.  The one-argument constructor
  receives the name of the procedure and nothing of the object; the other two format
  the type name into the message.
\<close>

definition not_implemented :: "string \<Rightarrow> exn" where
  "not_implemented func = NotImplementedError func None"

definition not_implemented_for :: "string \<Rightarrow> string \<Rightarrow> exn" where
  "not_implemented_for func kt =
     NotImplementedError func (Some (''Not implemented for kinetics type '' @ squote kt @ ''.''))"

definition not_applicable_for :: "string \<Rightarrow> string \<Rightarrow> exn" where
  "not_applicable_for func kt =
     NotImplementedError func
       (Some (''Not applicable/implemented for Kinetics object of type '' @ squote kt))"

primrec default_impl :: "virtual_op \<Rightarrow> string \<Rightarrow> exn" where
  "default_impl op_getEquilibriumConstants kt = not_implemented ''Kinetics::getEquilibriumConstants''"
| "default_impl op_getDeltaGibbs kt = not_implemented ''Kinetics::getDeltaGibbs''"
| "default_impl op_getDeltaElectrochemPotentials kt = not_implemented ''Kinetics::getDeltaElectrochemPotentials''"
| "default_impl op_getDeltaEnthalpy kt = not_implemented ''Kinetics::getDeltaEnthalpy''"
| "default_impl op_getDeltaEntropy kt = not_implemented ''Kinetics::getDeltaEntropy''"
| "default_impl op_getDeltaSSGibbs kt = not_implemented ''Kinetics::getDeltaSSGibbs''"
| "default_impl op_getDeltaSSEnthalpy kt = not_implemented ''Kinetics::getDeltaSSEnthalpy''"
| "default_impl op_getDeltaSSEntropy kt = not_implemented ''Kinetics::getDeltaSSEntropy''"
| "default_impl op_getThirdBodyConcentrations kt = not_applicable_for ''Kinetics::getThirdBodyConcentrations'' kt"
| "default_impl op_thirdBodyConcentrations kt = not_applicable_for ''Kinetics::thirdBodyConcentrations'' kt"
| "default_impl op_getDerivativeSettings kt = not_implemented_for ''Kinetics::getDerivativeSettings'' kt"
| "default_impl op_setDerivativeSettings kt = not_implemented_for ''Kinetics::setDerivativeSettings'' kt"
| "default_impl op_getFwdRateConstants_ddT kt = not_implemented_for ''Kinetics::getFwdRateConstants_ddT'' kt"
| "default_impl op_getFwdRateConstants_ddP kt = not_implemented_for ''Kinetics::getFwdRateConstants_ddP'' kt"
| "default_impl op_getFwdRateConstants_ddC kt = not_implemented_for ''Kinetics::getFwdRateConstants_ddC'' kt"
| "default_impl op_getFwdRatesOfProgress_ddT kt = not_implemented_for ''Kinetics::getFwdRatesOfProgress_ddT'' kt"
| "default_impl op_getFwdRatesOfProgress_ddP kt = not_implemented_for ''Kinetics::getFwdRatesOfProgress_ddP'' kt"
| "default_impl op_getFwdRatesOfProgress_ddC kt = not_implemented_for ''Kinetics::getFwdRatesOfProgress_ddC'' kt"
| "default_impl op_fwdRatesOfProgress_ddX kt = not_implemented_for ''Kinetics::fwdRatesOfProgress_ddX'' kt"
| "default_impl op_fwdRatesOfProgress_ddCi kt = not_implemented_for ''Kinetics::fwdRatesOfProgress_ddCi'' kt"
| "default_impl op_getRevRatesOfProgress_ddT kt = not_implemented_for ''Kinetics::getRevRatesOfProgress_ddT'' kt"
| "default_impl op_getRevRatesOfProgress_ddP kt = not_implemented_for ''Kinetics::getRevRatesOfProgress_ddP'' kt"
| "default_impl op_getRevRatesOfProgress_ddC kt = not_implemented_for ''Kinetics::getRevRatesOfProgress_ddC'' kt"
| "default_impl op_revRatesOfProgress_ddX kt = not_implemented_for ''Kinetics::revRatesOfProgress_ddX'' kt"
| "default_impl op_revRatesOfProgress_ddCi kt = not_implemented_for ''Kinetics::revRatesOfProgress_ddCi'' kt"
| "default_impl op_getNetRatesOfProgress_ddT kt = not_implemented_for ''Kinetics::getNetRatesOfProgress_ddT'' kt"
| "default_impl op_getNetRatesOfProgress_ddP kt = not_implemented_for ''Kinetics::getNetRatesOfProgress_ddP'' kt"
| "default_impl op_getNetRatesOfProgress_ddC kt = not_implemented_for ''Kinetics::getNetRatesOfProgress_ddC'' kt"
| "default_impl op_netRatesOfProgress_ddX kt = not_implemented_for ''Kinetics::netRatesOfProgress_ddX'' kt"
| "default_impl op_netRatesOfProgress_ddCi kt = not_implemented_for ''Kinetics::netRatesOfProgress_ddCi'' kt"
| "default_impl op_reactantOrder kt = not_implemented ''Kinetics::reactantOrder''"
| "default_impl op_productOrder kt = not_implemented ''Kinetics::productOrder''"
| "default_impl op_getActivityConcentrations kt = not_implemented ''Kinetics::getActivityConcentrations''"
| "default_impl op_getFwdRateConstants kt = not_implemented ''Kinetics::getFwdRateConstants''"
| "default_impl op_getRevRateConstants kt = not_implemented ''Kinetics::getRevRateConstants''"
| "default_impl op_updateROP kt = not_implemented ''Kinetics::updateROP''"

text \<open>The name of each of these operations, as the header declares it.\<close>

primrec op_name :: "virtual_op \<Rightarrow> string" where
  "op_name op_getEquilibriumConstants = ''getEquilibriumConstants''"
| "op_name op_getDeltaGibbs = ''getDeltaGibbs''"
| "op_name op_getDeltaElectrochemPotentials = ''getDeltaElectrochemPotentials''"
| "op_name op_getDeltaEnthalpy = ''getDeltaEnthalpy''"
| "op_name op_getDeltaEntropy = ''getDeltaEntropy''"
| "op_name op_getDeltaSSGibbs = ''getDeltaSSGibbs''"
| "op_name op_getDeltaSSEnthalpy = ''getDeltaSSEnthalpy''"
| "op_name op_getDeltaSSEntropy = ''getDeltaSSEntropy''"
| "op_name op_getThirdBodyConcentrations = ''getThirdBodyConcentrations''"
| "op_name op_thirdBodyConcentrations = ''thirdBodyConcentrations''"
| "op_name op_getDerivativeSettings = ''getDerivativeSettings''"
| "op_name op_setDerivativeSettings = ''setDerivativeSettings''"
| "op_name op_getFwdRateConstants_ddT = ''getFwdRateConstants_ddT''"
| "op_name op_getFwdRateConstants_ddP = ''getFwdRateConstants_ddP''"
| "op_name op_getFwdRateConstants_ddC = ''getFwdRateConstants_ddC''"
| "op_name op_getFwdRatesOfProgress_ddT = ''getFwdRatesOfProgress_ddT''"
| "op_name op_getFwdRatesOfProgress_ddP = ''getFwdRatesOfProgress_ddP''"
| "op_name op_getFwdRatesOfProgress_ddC = ''getFwdRatesOfProgress_ddC''"
| "op_name op_fwdRatesOfProgress_ddX = ''fwdRatesOfProgress_ddX''"
| "op_name op_fwdRatesOfProgress_ddCi = ''fwdRatesOfProgress_ddCi''"
| "op_name op_getRevRatesOfProgress_ddT = ''getRevRatesOfProgress_ddT''"
| "op_name op_getRevRatesOfProgress_ddP = ''getRevRatesOfProgress_ddP''"
| "op_name op_getRevRatesOfProgress_ddC = ''getRevRatesOfProgress_ddC''"
| "op_name op_revRatesOfProgress_ddX = ''revRatesOfProgress_ddX''"
| "op_name op_revRatesOfProgress_ddCi = ''revRatesOfProgress_ddCi''"
| "op_name op_getNetRatesOfProgress_ddT = ''getNetRatesOfProgress_ddT''"
| "op_name op_getNetRatesOfProgress_ddP = ''getNetRatesOfProgress_ddP''"
| "op_name op_getNetRatesOfProgress_ddC = ''getNetRatesOfProgress_ddC''"
| "op_name op_netRatesOfProgress_ddX = ''netRatesOfProgress_ddX''"
| "op_name op_netRatesOfProgress_ddCi = ''netRatesOfProgress_ddCi''"
| "op_name op_reactantOrder = ''reactantOrder''"
| "op_name op_productOrder = ''productOrder''"
| "op_name op_getActivityConcentrations = ''getActivityConcentrations''"
| "op_name op_getFwdRateConstants = ''getFwdRateConstants''"
| "op_name op_getRevRateConstants = ''getRevRateConstants''"
| "op_name op_updateROP = ''updateROP''"

text \<open>\<^verbatim>\<open>Kinetics::kineticsType()\<close> of the base class itself (lines 145-147).\<close>

definition kineticsType :: string where
  "kineticsType = ''none''"

text \<open>
  Whether the text \<open>t\<close> stands in what the exception reports: the name of the procedure
  and, where the constructor was given one, the message.
\<close>

fun reports :: "exn \<Rightarrow> string \<Rightarrow> bool" where
  "reports (NotImplementedError func None) t = occurs_in t func"
| "reports (NotImplementedError func (Some msg)) t = (occurs_in t func \<or> occurs_in t msg)"
| "reports (CanteraError func msg) t = (occurs_in t func \<or> occurs_in t msg)"
| "reports (IndexError func arr m mmax) t = (occurs_in t func \<or> occurs_in t arr)"
| "reports (ArraySizeError func sz reqd) t = occurs_in t func"
| "reports std_out_of_range t = False"

section \<open>Reactors and their surfaces\<close>

text \<open>
  \<^verbatim>\<open>ReactorBase::addSurface\<close> (src/zeroD/ReactorBase.cpp, lines 101-107).  Objects are
  named by their addresses.  \<^verbatim>\<open>m_surfaces\<close> is the member of the reactor; the call
  \<^verbatim>\<open>surf->setReactor(this)\<close> changes the surface, an object outside the reactor, whose
  class is not among the sources: its effect on the rest of the memory \<open>h\<close> is the
  parameter \<open>setReactor\<close>.
\<close>

type_synonym address = nat

record ReactorBase =
  m_surfaces :: "address list"

definition ReactorBase_new :: ReactorBase where
  "ReactorBase_new = \<lparr> m_surfaces = [] \<rparr>"

definition addSurface ::
  "(address \<Rightarrow> address \<Rightarrow> 'h \<Rightarrow> 'h) \<Rightarrow> address \<Rightarrow> address \<Rightarrow> ReactorBase \<times> 'h \<Rightarrow> ReactorBase \<times> 'h" where
  "addSurface setReactor this surf st =
     (case st of (r, h) \<Rightarrow>
        if find (\<lambda>p. p = surf) (m_surfaces r) = None
        then (r\<lparr> m_surfaces := m_surfaces r @ [surf] \<rparr>, setReactor surf this h)
        else (r, h))"

section \<open>Connectors\<close>

text \<open>
  The classes the constructor of \<^verbatim>\<open>ConnectorFactory\<close> registers
  (src/zeroD/ConnectorFactory.cpp, lines 17-31), and the object a creator returns: its
  class and the name given to it (\<^verbatim>\<open>m_name\<close> of Connector.h).  The class declarations
  (flowControllers.h, Wall.h) are not among the sources: \<^verbatim>\<open>MassFlowController\<close>,
  \<^verbatim>\<open>PressureController\<close> and \<^verbatim>\<open>Valve\<close> derive from \<^verbatim>\<open>FlowDevice\<close>, \<^verbatim>\<open>Wall\<close> derives
  from \<^verbatim>\<open>WallBase\<close>, as test/zeroD/test_zeroD.cpp uses them (a valve made by
  \<^verbatim>\<open>newFlowDevice("Valve", ...)\<close>, a wall by \<^verbatim>\<open>newWall("Wall", ...)\<close>).
\<close>

datatype connector_class = MassFlowController | PressureController | Valve | Wall

record Connector =
  connector_type :: connector_class
  m_name :: string

fun is_FlowDevice :: "Connector \<Rightarrow> bool" where
  "is_FlowDevice c = (connector_type c = MassFlowController \<or>
     connector_type c = PressureController \<or> connector_type c = Valve)"

fun is_WallBase :: "Connector \<Rightarrow> bool" where
  "is_WallBase c = (connector_type c = Wall)"

text \<open>\<^verbatim>\<open>std::dynamic_pointer_cast\<close>: the object, or the null pointer (\<open>None\<close>).\<close>

definition dynamic_pointer_cast :: "(Connector \<Rightarrow> bool) \<Rightarrow> Connector \<Rightarrow> Connector option" where
  "dynamic_pointer_cast is_a c = (if is_a c then Some c else None)"

text \<open>
  \<^verbatim>\<open>Factory::create\<close> is inherited from a class that is not among the sources, so
  \<^verbatim>\<open>newConnector\<close> (lines 47-53) takes it as the parameter \<open>create\<close>: from the model
  string and the name to the created object or the exception raised.
\<close>

type_synonym factory = "string \<Rightarrow> string \<Rightarrow> exn + Connector"

definition newConnector :: "factory \<Rightarrow> string \<Rightarrow> string \<Rightarrow> exn + Connector" where
  "newConnector create model nm = create model nm"

text \<open>\<^verbatim>\<open>newFlowDevice\<close> (lines 55-64) and \<^verbatim>\<open>newWall\<close> (lines 73-82).\<close>

definition newFlowDevice :: "factory \<Rightarrow> string \<Rightarrow> string \<Rightarrow> exn + Connector" where
  "newFlowDevice create model nm =
     (case newConnector create model nm of
        Inl e \<Rightarrow> Inl e
      | Inr c \<Rightarrow>
          (case dynamic_pointer_cast is_FlowDevice c of
             None \<Rightarrow> Inl (CanteraError ''newFlowDevice''
                       (''Detected incompatible Connector type '' @ squote model))
           | Some dev \<Rightarrow> Inr dev))"

definition newWall :: "factory \<Rightarrow> string \<Rightarrow> string \<Rightarrow> exn + Connector" where
  "newWall create model nm =
     (case newConnector create model nm of
        Inl e \<Rightarrow> Inl e
      | Inr c \<Rightarrow>
          (case dynamic_pointer_cast is_WallBase c of
             None \<Rightarrow> Inl (CanteraError ''newWall''
                       (''Detected incompatible Connector type '' @ squote model))
           | Some wall \<Rightarrow> Inr wall))"

text \<open>
  The factory as its constructor fills it: the four registered creators.  A model string
  that is not registered makes \<^verbatim>\<open>create\<close> raise.
\<close>

definition ConnectorFactory :: "(string \<times> (string \<Rightarrow> Connector)) list" where
  "ConnectorFactory =
     [(''MassFlowController'', \<lambda>nm. \<lparr> connector_type = MassFlowController, m_name = nm \<rparr>),
      (''PressureController'', \<lambda>nm. \<lparr> connector_type = PressureController, m_name = nm \<rparr>),
      (''Valve'', \<lambda>nm. \<lparr> connector_type = Valve, m_name = nm \<rparr>),
      (''Wall'', \<lambda>nm. \<lparr> connector_type = Wall, m_name = nm \<rparr>)]"

definition ConnectorFactory_create :: factory where
  "ConnectorFactory_create model nm =
     (case map_of ConnectorFactory model of
        None \<Rightarrow> Inl (CanteraError ''Factory::create'' (''No such type: '' @ squote model))
      | Some creator \<Rightarrow> Inr (creator nm))"

section \<open>Results: species and phase index\<close>

lemma addThermo_sel:
  "m_kk (addThermo p s) = m_kk s + nSpecies p"
  "m_start (addThermo p s) = m_start s @ [m_kk s]"
  "m_thermo (addThermo p s) = m_thermo s @ [p]"
  by (simp_all add: addThermo_def)

lemma fold_addThermo_kk:
  "m_kk (fold addThermo phases s) = m_kk s + sum_list (map nSpecies phases)"
  by (induction phases arbitrary: s) (simp_all add: addThermo_sel add.assoc)

lemma fold_addThermo_start:
  "m_start (fold addThermo phases s) =
     m_start s @ map (\<lambda>j. m_kk s + sum_list (map nSpecies (take j phases))) [0..<length phases]"
proof (induction phases arbitrary: s)
  case Nil
  then show ?case by simp
next
  case (Cons p ps)
  have "[0..<length (p # ps)] = 0 # map Suc [0..<length ps]"
    by (simp add: upt_conv_Cons map_Suc_upt del: upt_Suc)
  then show ?case
    by (simp add: Cons.IH addThermo_sel add.assoc comp_def del: upt_Suc)
qed

text \<open>While the true sum fits in a \<^verbatim>\<open>size_t\<close>, the wrapping sum is the true sum.\<close>

lemma unat_sum_list:
  "sum_list (map unat (ws :: size_t list)) < 2 ^ 64 \<Longrightarrow>
     unat (sum_list ws) = sum_list (map unat ws)"
proof (induction ws)
  case Nil
  then show ?case by simp
next
  case (Cons w ws)
  then have "unat (sum_list ws) = sum_list (map unat ws)" by simp
  with Cons.prems show ?case
    by (simp add: unat_word_ariths)
qed

lemma sum_list_take_nth_le:
  fixes f :: "'a \<Rightarrow> nat"
  assumes "n < length xs"
  shows "sum_list (map f (take n xs)) + f (xs ! n) \<le> sum_list (map f xs)"
proof -
  have "xs = take n xs @ xs ! n # drop (Suc n) xs"
    using assms by (simp add: id_take_nth_drop)
  then have "sum_list (map f xs) =
      sum_list (map f (take n xs)) + f (xs ! n) + sum_list (map f (drop (Suc n) xs))"
    by (metis add.assoc map_append list.simps(9) sum_list.Cons sum_list_append)
  then show ?thesis by simp
qed

text \<open>
  Claim C3.  After any sequence of \<^verbatim>\<open>addThermo\<close> calls on a new manager, with the phases
  \<open>phases\<close> in the order of the calls, \<^verbatim>\<open>kineticsSpeciesIndex(k, n)\<close> is the sum of the
  species counts of the phases before phase \<open>n\<close>, plus \<open>k\<close>, and \<^verbatim>\<open>nTotalSpecies()\<close> is
  the sum of all species counts.  The sums are those of \<^verbatim>\<open>size_t\<close>; the last part says
  that they are the sums of natural numbers whenever the total fits in a \<^verbatim>\<open>size_t\<close> and
  \<open>k\<close> is a species of phase \<open>n\<close>.
\<close>

theorem kineticsSpeciesIndex_contiguous:
  assumes n: "n < length phases"
  shows "kineticsSpeciesIndex (fold addThermo phases Kinetics_new) k n
           = Some (sum_list (map nSpecies (take n phases)) + k)
       \<and> nTotalSpecies (fold addThermo phases Kinetics_new) = sum_list (map nSpecies phases)
       \<and> (sum_list (map unat (map nSpecies phases)) < 2 ^ 64 \<and> k < nSpecies (phases ! n) \<longrightarrow>
            unat (sum_list (map nSpecies (take n phases)) + k)
              = sum_list (map unat (map nSpecies (take n phases))) + unat k
            \<and> unat (sum_list (map nSpecies phases)) = sum_list (map unat (map nSpecies phases)))"
proof -
  let ?s = "fold addThermo phases Kinetics_new"
  have idx: "kineticsSpeciesIndex ?s k n = Some (sum_list (map nSpecies (take n phases)) + k)"
    using n by (simp add: kineticsSpeciesIndex_def fold_addThermo_start Kinetics_new_def)
  have tot: "nTotalSpecies ?s = sum_list (map nSpecies phases)"
    by (simp add: nTotalSpecies_def fold_addThermo_kk Kinetics_new_def)
  have nat: "unat (sum_list (map nSpecies (take n phases)) + k)
              = sum_list (map unat (map nSpecies (take n phases))) + unat k
            \<and> unat (sum_list (map nSpecies phases)) = sum_list (map unat (map nSpecies phases))"
    if fits: "sum_list (map unat (map nSpecies phases)) < 2 ^ 64"
      and k: "k < nSpecies (phases ! n)"
  proof -
    let ?c = "map nSpecies phases"
    have le: "sum_list (map unat (take n ?c)) + unat (?c ! n) \<le> sum_list (map unat ?c)"
      using n by (intro sum_list_take_nth_le) simp
    have kn: "unat k < unat (?c ! n)"
      using k n by (simp add: word_less_nat_alt)
    have small: "sum_list (map unat (take n ?c)) < 2 ^ 64"
      using le fits by linarith
    have st: "unat (sum_list (take n ?c)) = sum_list (map unat (take n ?c))"
      using small by (rule unat_sum_list)
    have "unat (sum_list (take n ?c)) + unat k < 2 ^ 64"
      using st le kn fits by linarith
    then have "unat (sum_list (take n ?c) + k) = unat (sum_list (take n ?c)) + unat k"
      by (simp add: unat_word_ariths)
    with st have a: "unat (sum_list (take n ?c) + k) = sum_list (map unat (take n ?c)) + unat k"
      by simp
    have b: "unat (sum_list ?c) = sum_list (map unat ?c)"
      using fits by (rule unat_sum_list)
    from a b show ?thesis by (simp add: take_map)
  qed
  from idx tot nat show ?thesis by blast
qed

text \<open>
  The example of the header: phases of 12, 26 and 3 species; species 2 of phase 2 is at
  position 40, and there are 41 species.
\<close>

theorem kineticsSpeciesIndex_contiguous_witness:
  "kineticsSpeciesIndex (fold addThermo
      [\<lparr>name = ''a'', nSpecies = 12\<rparr>, \<lparr>name = ''b'', nSpecies = 26\<rparr>,
       \<lparr>name = ''a:b'', nSpecies = 3\<rparr>]
      Kinetics_new) 2 2 = Some 40
   \<and> nTotalSpecies (fold addThermo
      [\<lparr>name = ''a'', nSpecies = 12\<rparr>, \<lparr>name = ''b'', nSpecies = 26\<rparr>,
       \<lparr>name = ''a:b'', nSpecies = 3\<rparr>]
      Kinetics_new) = 41"
  using kineticsSpeciesIndex_contiguous [of 2
      "[\<lparr>name = ''a'', nSpecies = 12\<rparr>, \<lparr>name = ''b'', nSpecies = 26\<rparr>,
        \<lparr>name = ''a:b'', nSpecies = 3\<rparr>]" 2]
  by simp

lemma addThermo_phaseindex:
  "m_phaseindex (addThermo p s) =
     (m_phaseindex s)(name p \<mapsto> of_nat (length (m_thermo s) + 1))"
  by (simp add: addThermo_def)

lemma fold_addThermo_thermo: "m_thermo (fold addThermo phases s) = m_thermo s @ phases"
  by (induction phases arbitrary: s) (simp_all add: addThermo_sel)

lemma fold_addThermo_phaseindex:
  assumes "distinct (map name phases)" and "j < length phases"
  shows "m_phaseindex (fold addThermo phases Kinetics_new) (name (phases ! j))
           = Some (of_nat j + 1)"
  using assms
proof (induction phases rule: rev_induct)
  case Nil
  then show ?case by simp
next
  case (snoc p ps)
  have len: "length (m_thermo (fold addThermo ps Kinetics_new)) = length ps"
    by (simp add: fold_addThermo_thermo Kinetics_new_def)
  show ?case
  proof (cases "j < length ps")
    case True
    then have "name (ps ! j) \<in> name ` set ps" by simp
    moreover from snoc.prems(1) have "name p \<notin> name ` set ps" by simp
    ultimately have "name (ps ! j) \<noteq> name p" by auto
    with True snoc show ?thesis
      by (simp add: addThermo_phaseindex nth_append)
  next
    case False
    with snoc.prems have "j = length ps" by simp
    then show ?thesis
      by (simp add: addThermo_phaseindex len)
  qed
qed

text \<open>
  With \<^verbatim>\<open>addThermo\<close> as modelled above, the position stored for a phase is its index
  plus one, so that \<^verbatim>\<open>phaseIndex\<close> of the name of phase \<open>j\<close> is \<open>j\<close> (phases of distinct
  names).
\<close>

lemma phaseIndex_of_added_phase:
  assumes "distinct (map name phases)" and "j < length phases"
  shows "phaseIndex (fold addThermo phases Kinetics_new) (name (phases ! j)) = Inr (of_nat j)"
  using fold_addThermo_phaseindex [OF assms]
  by (simp add: phaseIndex_def map_at_def)

text \<open>
  Claim C8.  For every phase name \<open>ph\<close>, \<^verbatim>\<open>phaseIndex(ph)\<close> returns a value and throws
  nothing: \<^verbatim>\<open>npos\<close> when \<open>ph\<close> is not a key of \<^verbatim>\<open>m_phaseindex\<close>, and otherwise the
  stored position minus one.
\<close>

theorem phaseIndex_result:
  "phaseIndex s ph = Inr (case m_phaseindex s ph of None \<Rightarrow> npos | Some p \<Rightarrow> p - 1)"
  by (simp add: phaseIndex_def map_at_def split: option.split)

section \<open>Results: multipliers and the cache\<close>

text \<open>
  Claim C4 as stated fails: a manager with one reaction and one cached result, after
  \<^verbatim>\<open>setMultiplier(0, 0)\<close>, still holds the cached result.
\<close>

theorem setMultiplier_invalidates_counterexample:
  "setMultiplier 0 0 (Kinetics_new\<lparr> m_perturb := [1], m_cache := [7 \<mapsto> [2]] \<rparr>)
     = Some (Kinetics_new\<lparr> m_perturb := [0], m_cache := [7 \<mapsto> [2]] \<rparr>)
   \<and> m_cache (Kinetics_new\<lparr> m_perturb := [0], m_cache := [7 \<mapsto> [2]] \<rparr>) 7 = Some [2]"
  by (simp add: setMultiplier_def Kinetics_new_def)

text \<open>
  Claim C4, amended.  For every reaction index \<open>i\<close> of the manager and every value \<open>f\<close>,
  \<^verbatim>\<open>setMultiplier(i, f)\<close> makes \<open>f\<close> the multiplier of reaction \<open>i\<close>, leaves the other
  multipliers and the value cache as they were; the cache is emptied by
  \<^verbatim>\<open>invalidateCache()\<close>.
\<close>

theorem setMultiplier_keeps_cache:
  assumes "i < length (m_perturb s)"
  shows "\<exists>s'. setMultiplier i f s = Some s' \<and> m_cache s' = m_cache s
           \<and> multiplier s' i = Some f
           \<and> (\<forall>j. j \<noteq> i \<longrightarrow> multiplier s' j = multiplier s j)
           \<and> m_cache (invalidateCache s') = Map.empty"
  using assms by (simp add: setMultiplier_def multiplier_def invalidateCache_def)

theorem setMultiplier_keeps_cache_witness:
  "\<exists>s'. setMultiplier 0 0 (Kinetics_new\<lparr> m_perturb := [1], m_cache := [7 \<mapsto> [2]] \<rparr>) = Some s'
      \<and> m_cache s' 7 = Some [2] \<and> multiplier s' 0 = Some 0"
  using setMultiplier_keeps_cache
    [of 0 "Kinetics_new\<lparr> m_perturb := [1], m_cache := [7 \<mapsto> [2]] \<rparr>" 0]
  by (auto simp add: Kinetics_new_def)

section \<open>Results: reactors and their surfaces\<close>

lemma addSurface_surfaces:
  "m_surfaces (fst (addSurface sr this surf (r, h))) =
     (if surf \<in> set (m_surfaces r) then m_surfaces r else m_surfaces r @ [surf])"
  by (auto simp add: addSurface_def find_None_iff)

lemma fold_addSurface_distinct:
  "distinct (m_surfaces (fst st)) \<Longrightarrow>
     distinct (m_surfaces (fst (fold (addSurface sr this) surfs st)))"
proof (induction surfs arbitrary: st)
  case Nil
  then show ?case by simp
next
  case (Cons a surfs)
  obtain r h where st: "st = (r, h)" by (cases st)
  have "distinct (m_surfaces (fst (addSurface sr this a st)))"
    using Cons.prems by (simp add: st addSurface_surfaces)
  then show ?case using Cons.IH by simp
qed

text \<open>
  Claim C9.  \<^verbatim>\<open>addSurface(surf)\<close> on a reactor whose list already holds \<open>surf\<close> changes
  nothing; a second \<^verbatim>\<open>addSurface(surf)\<close> changes nothing after the first; and whatever
  surfaces are added to a new reactor, however often, its list holds each at most once.
\<close>

theorem addSurface_idempotent:
  "(surf \<in> set (m_surfaces r) \<longrightarrow> addSurface sr this surf (r, h) = (r, h))
   \<and> addSurface sr this surf (addSurface sr this surf (r, h)) = addSurface sr this surf (r, h)
   \<and> distinct (m_surfaces (fst (fold (addSurface sr this) surfs (ReactorBase_new, h))))"
proof -
  have a: "surf \<in> set (m_surfaces r) \<longrightarrow> addSurface sr this surf (r, h) = (r, h)"
    by (auto simp add: addSurface_def find_None_iff)
  have b: "addSurface sr this surf (addSurface sr this surf (r, h))
             = addSurface sr this surf (r, h)"
    by (auto simp add: addSurface_def find_None_iff)
  have c: "distinct (m_surfaces (fst (fold (addSurface sr this) surfs (ReactorBase_new, h))))"
    by (rule fold_addSurface_distinct) (simp add: ReactorBase_new_def)
  from a b c show ?thesis by blast
qed

theorem addSurface_idempotent_witness:
  "addSurface (\<lambda>surf this h. h(surf \<mapsto> this)) 1 5 (\<lparr> m_surfaces = [5, 6] \<rparr>, Map.empty)
     = (\<lparr> m_surfaces = [5, 6] \<rparr>, Map.empty)
   \<and> m_surfaces (fst (fold (addSurface (\<lambda>surf this h. h(surf \<mapsto> this)) 1) [5, 6, 5, 5, 6]
        (ReactorBase_new, Map.empty))) = [5, 6]"
  using addSurface_idempotent
    [of 5 "\<lparr> m_surfaces = [5, 6] \<rparr>" "\<lambda>surf this h. h(surf \<mapsto> this)" 1 Map.empty "[]"]
  by (simp add: addSurface_def ReactorBase_new_def)

section \<open>Results: checked and unchecked indices\<close>

text \<open>
  Claim C6 as stated fails on the inline accessors.  A new manager has no reaction, and
  \<^verbatim>\<open>isReversible(0)\<close>, one past the valid count, returns \<^verbatim>\<open>false\<close>; with one phase of
  three species, \<^verbatim>\<open>kineticsSpeciesIndex(3, 0)\<close>, one past the last species, returns 3.
  Neither raises.
\<close>

theorem accessors_raise_counterexample:
  "nReactions Kinetics_new = 0
   \<and> isReversible Kinetics_new 0 = False
   \<and> nTotalSpecies (Kinetics_new\<lparr> m_thermo := [\<lparr>name = ''gas'', nSpecies = 3\<rparr>],
        m_start := [0], m_kk := 3 \<rparr>) = 3
   \<and> kineticsSpeciesIndex (Kinetics_new\<lparr> m_thermo := [\<lparr>name = ''gas'', nSpecies = 3\<rparr>],
        m_start := [0], m_kk := 3 \<rparr>) 3 0 = Some 3"
  by (simp add: nReactions_def isReversible_def nTotalSpecies_def kineticsSpeciesIndex_def
      Kinetics_new_def)

text \<open>
  Claim C6, amended.  The checked operations \<^verbatim>\<open>checkReactionIndex\<close>,
  \<^verbatim>\<open>checkSpeciesIndex\<close> and \<^verbatim>\<open>checkPhaseIndex\<close> raise the index-out-of-range condition
  for the index one past the valid count and for every larger one, and accept every
  smaller one; the checked array-size operations never raise for a buffer at least as
  large as the count.  The inline accessors do not check: \<^verbatim>\<open>isReversible(i)\<close> answers
  whether \<open>i\<close> is in \<^verbatim>\<open>m_revindex\<close>, \<^verbatim>\<open>kineticsSpeciesIndex(k, n)\<close> is
  \<^verbatim>\<open>m_start[n] + k\<close> for every \<open>k\<close>, and \<^verbatim>\<open>phase(nPhases())\<close> and
  \<^verbatim>\<open>multiplier(nReactions())\<close> read outside their vectors.
\<close>

theorem checked_indices:
  "(nReactions s \<le> i \<longrightarrow>
       checkReactionIndex s i
         = Inl (IndexError ''Kinetics::checkReactionIndex'' ''reactions'' i (nReactions s)))
   \<and> (i < nReactions s \<longrightarrow> checkReactionIndex s i = Inr ())
   \<and> (nTotalSpecies s \<le> k \<longrightarrow>
       checkSpeciesIndex s k
         = Inl (IndexError ''Kinetics::checkSpeciesIndex'' ''species'' (unat k)
                 (unat (nTotalSpecies s))))
   \<and> (k < nTotalSpecies s \<longrightarrow> checkSpeciesIndex s k = Inr ())
   \<and> (nPhases s \<le> n \<longrightarrow>
       checkPhaseIndex s n = Inl (IndexError ''Kinetics::checkPhaseIndex'' ''phase'' n (nPhases s)))
   \<and> (n < nPhases s \<longrightarrow> checkPhaseIndex s n = Inr ())
   \<and> (nReactions s \<le> ii \<longrightarrow> checkReactionArraySize s ii = Inr ())
   \<and> (nTotalSpecies s \<le> kk \<longrightarrow> checkSpeciesArraySize s kk = Inr ())
   \<and> (nPhases s \<le> nn \<longrightarrow> checkPhaseArraySize s nn = Inr ())
   \<and> isReversible s i = (i \<in> set (m_revindex s))
   \<and> (n < length (m_start s) \<longrightarrow> kineticsSpeciesIndex s k n = Some (m_start s ! n + k))
   \<and> phase s (nPhases s) = None
   \<and> multiplier s (length (m_perturb s)) = None"
  by (auto simp add: checkReactionIndex_def checkSpeciesIndex_def checkPhaseIndex_def
      checkReactionArraySize_def checkSpeciesArraySize_def checkPhaseArraySize_def
      nTotalSpecies_def isReversible_def kineticsSpeciesIndex_def phase_def multiplier_def
      nPhases_def find_None_iff)

text \<open>
  The manager of the header's example, three phases of 12, 26 and 3 species and no
  reaction: index 41 is refused and a buffer of 41 entries is accepted.
\<close>

theorem checked_indices_witness:
  "checkSpeciesIndex (fold addThermo
      [\<lparr>name = ''a'', nSpecies = 12\<rparr>, \<lparr>name = ''b'', nSpecies = 26\<rparr>,
       \<lparr>name = ''a:b'', nSpecies = 3\<rparr>] Kinetics_new) 41
     = Inl (IndexError ''Kinetics::checkSpeciesIndex'' ''species'' 41 41)
   \<and> checkSpeciesIndex (fold addThermo
      [\<lparr>name = ''a'', nSpecies = 12\<rparr>, \<lparr>name = ''b'', nSpecies = 26\<rparr>,
       \<lparr>name = ''a:b'', nSpecies = 3\<rparr>] Kinetics_new) 40 = Inr ()
   \<and> checkPhaseIndex (fold addThermo
      [\<lparr>name = ''a'', nSpecies = 12\<rparr>, \<lparr>name = ''b'', nSpecies = 26\<rparr>,
       \<lparr>name = ''a:b'', nSpecies = 3\<rparr>] Kinetics_new) 3
     = Inl (IndexError ''Kinetics::checkPhaseIndex'' ''phase'' 3 3)
   \<and> checkReactionIndex (fold addThermo
      [\<lparr>name = ''a'', nSpecies = 12\<rparr>, \<lparr>name = ''b'', nSpecies = 26\<rparr>,
       \<lparr>name = ''a:b'', nSpecies = 3\<rparr>] Kinetics_new) 0
     = Inl (IndexError ''Kinetics::checkReactionIndex'' ''reactions'' 0 0)
   \<and> checkSpeciesArraySize (fold addThermo
      [\<lparr>name = ''a'', nSpecies = 12\<rparr>, \<lparr>name = ''b'', nSpecies = 26\<rparr>,
       \<lparr>name = ''a:b'', nSpecies = 3\<rparr>] Kinetics_new) 41 = Inr ()
   \<and> kineticsSpeciesIndex (fold addThermo
      [\<lparr>name = ''a'', nSpecies = 12\<rparr>, \<lparr>name = ''b'', nSpecies = 26\<rparr>,
       \<lparr>name = ''a:b'', nSpecies = 3\<rparr>] Kinetics_new) 3 2 = Some 41"
  using checked_indices [of "fold addThermo
      [\<lparr>name = ''a'', nSpecies = 12\<rparr>, \<lparr>name = ''b'', nSpecies = 26\<rparr>,
       \<lparr>name = ''a:b'', nSpecies = 3\<rparr>] Kinetics_new" 0 41 3 0 41 3]
    checked_indices [of "fold addThermo
      [\<lparr>name = ''a'', nSpecies = 12\<rparr>, \<lparr>name = ''b'', nSpecies = 26\<rparr>,
       \<lparr>name = ''a:b'', nSpecies = 3\<rparr>] Kinetics_new" 0 40 2 0 41 3]
  by (simp add: nTotalSpecies_def nPhases_def nReactions_def addThermo_def Kinetics_new_def
      kineticsSpeciesIndex_def)

section \<open>Results: operations a subtype does not support\<close>

lemma starts_with_append: "starts_with (t @ b) t"
  by (induction t) simp_all

lemma occurs_in_suffix: "starts_with hay t \<Longrightarrow> occurs_in t (a @ hay)"
proof (induction a)
  case Nil
  then show ?case by (cases hay) simp_all
next
  case (Cons c a)
  then show ?case by simp
qed

lemma occurs_in_append: "occurs_in t (a @ t @ b)"
  by (rule occurs_in_suffix) (rule starts_with_append)

lemma occurs_in_squote: "occurs_in t (a @ squote t @ b)"
  using occurs_in_append [of t "a @ [CHR 0x27]" "CHR 0x27 # b"]
  by (simp add: squote_def)

lemma occurs_in_squote_end: "occurs_in t (a @ squote t)"
  using occurs_in_squote [of t a "[]"] by simp

lemma not_implemented_shape:
  "starts_with f ''Kinetics::'' \<Longrightarrow>
     (case not_implemented f of
        NotImplementedError func msg \<Rightarrow>
          starts_with func ''Kinetics::'' \<and>
          (case msg of None \<Rightarrow> True | Some m \<Rightarrow> occurs_in kt m)
      | _ \<Rightarrow> False)"
  by (simp add: not_implemented_def)

lemma not_implemented_for_shape:
  "starts_with f ''Kinetics::'' \<Longrightarrow>
     (case not_implemented_for f kt of
        NotImplementedError func msg \<Rightarrow>
          starts_with func ''Kinetics::'' \<and>
          (case msg of None \<Rightarrow> True | Some m \<Rightarrow> occurs_in kt m)
      | _ \<Rightarrow> False)"
  unfolding not_implemented_for_def
  by (simp only: exn.case option.case occurs_in_squote simp_thms)

lemma not_applicable_for_shape:
  "starts_with f ''Kinetics::'' \<Longrightarrow>
     (case not_applicable_for f kt of
        NotImplementedError func msg \<Rightarrow>
          starts_with func ''Kinetics::'' \<and>
          (case msg of None \<Rightarrow> True | Some m \<Rightarrow> occurs_in kt m)
      | _ \<Rightarrow> False)"
  unfolding not_applicable_for_def
  by (simp only: exn.case option.case occurs_in_squote_end simp_thms)

lemma default_impl_shape:
  "(case default_impl op kt of
      NotImplementedError func msg \<Rightarrow>
        starts_with func ''Kinetics::'' \<and>
        (case msg of None \<Rightarrow> True | Some m \<Rightarrow> occurs_in kt m)
    | _ \<Rightarrow> False)"
  by (cases op; simp only: default_impl.simps;
      rule not_implemented_shape not_implemented_for_shape not_applicable_for_shape; simp)

lemma default_impl_without_message:
  "(\<exists>func. default_impl op kt = NotImplementedError func None) =
     (op \<in> {op_getEquilibriumConstants, op_getDeltaGibbs, op_getDeltaElectrochemPotentials,
            op_getDeltaEnthalpy, op_getDeltaEntropy, op_getDeltaSSGibbs,
            op_getDeltaSSEnthalpy, op_getDeltaSSEntropy, op_reactantOrder, op_productOrder,
            op_getActivityConcentrations, op_getFwdRateConstants, op_getRevRateConstants,
            op_updateROP})"
  by (cases op)
    (simp_all add: not_implemented_def not_implemented_for_def not_applicable_for_def)

text \<open>The procedure an error reports is the operation that was invoked.\<close>

lemma default_impl_procedure:
  "\<exists>msg. default_impl op kt = NotImplementedError (''Kinetics::'' @ op_name op) msg"
  by (cases op)
    (simp_all add: not_implemented_def not_implemented_for_def not_applicable_for_def)

text \<open>No two operations have the same name.\<close>

lemma op_name_inject: "op_name op' = op_name op \<Longrightarrow> op' = op"
  by (cases op; cases op'; simp)

text \<open>
  Claim C5 as stated fails: on a manager of the base type, whose type name is
  \<^verbatim>\<open>none\<close>, \<^verbatim>\<open>getEquilibriumConstants\<close> raises the not-implemented error built from
  the name of the procedure alone, and the type name stands nowhere in it.
\<close>

theorem not_implemented_counterexample:
  "default_impl op_getEquilibriumConstants kineticsType
     = NotImplementedError ''Kinetics::getEquilibriumConstants'' None
   \<and> \<not> reports (default_impl op_getEquilibriumConstants kineticsType) kineticsType"
  by (simp add: not_implemented_def kineticsType_def)

text \<open>
  Claim C5, amended.  For every virtual operation that the concrete subtype does not
  support, and every type name \<open>kt\<close> of the subtype, invoking the operation raises a
  not-implemented error whose procedure is \<^verbatim>\<open>Kinetics::\<close> followed by the name of that
  operation, and no other operation has that name.  Where the error carries a message,
  the message includes the type name; it carries none for exactly fourteen operations,
  \<^verbatim>\<open>getEquilibriumConstants\<close> and \<^verbatim>\<open>getDeltaGibbs\<close> among them.
\<close>

theorem not_implemented_names_procedure:
  "(case default_impl op kt of
      NotImplementedError func msg \<Rightarrow>
        starts_with func ''Kinetics::'' \<and>
        (case msg of None \<Rightarrow> True | Some m \<Rightarrow> occurs_in kt m)
    | _ \<Rightarrow> False)
   \<and> ((\<exists>func. default_impl op kt = NotImplementedError func None) =
     (op \<in> {op_getEquilibriumConstants, op_getDeltaGibbs, op_getDeltaElectrochemPotentials,
            op_getDeltaEnthalpy, op_getDeltaEntropy, op_getDeltaSSGibbs,
            op_getDeltaSSEnthalpy, op_getDeltaSSEntropy, op_reactantOrder, op_productOrder,
            op_getActivityConcentrations, op_getFwdRateConstants, op_getRevRateConstants,
            op_updateROP}))
   \<and> (\<exists>msg. default_impl op kt = NotImplementedError (''Kinetics::'' @ op_name op) msg)
   \<and> (\<forall>op'. op_name op' = op_name op \<longrightarrow> op' = op)"
  using default_impl_shape [where op = op and kt = kt]
    default_impl_without_message [where op = op and kt = kt]
    default_impl_procedure [where op = op and kt = kt]
    op_name_inject [where op = op]
  by blast

text \<open>
  Two operations on a manager of type \<^verbatim>\<open>surface\<close>: the third-body concentrations report
  the type, the Gibbs energies of reaction do not.
\<close>

theorem not_implemented_names_procedure_witness:
  "default_impl op_getThirdBodyConcentrations ''surface''
     = NotImplementedError ''Kinetics::getThirdBodyConcentrations''
         (Some (''Not applicable/implemented for Kinetics object of type '' @ squote ''surface''))
   \<and> reports (default_impl op_getThirdBodyConcentrations ''surface'') ''surface''
   \<and> default_impl op_getDeltaGibbs ''surface'' = NotImplementedError ''Kinetics::getDeltaGibbs'' None
   \<and> \<not> reports (default_impl op_getDeltaGibbs ''surface'') ''surface''"
proof -
  have "case default_impl op_getThirdBodyConcentrations ''surface'' of
      NotImplementedError func msg \<Rightarrow>
        starts_with func ''Kinetics::'' \<and>
        (case msg of None \<Rightarrow> True | Some m \<Rightarrow> occurs_in ''surface'' m)
    | _ \<Rightarrow> False"
    using not_implemented_names_procedure
      [where op = op_getThirdBodyConcentrations and kt = "''surface''"]
    by (rule conjunct1)
  then have r: "reports (default_impl op_getThirdBodyConcentrations ''surface'') ''surface''"
    by (simp add: not_applicable_for_def)
  have rest: "default_impl op_getThirdBodyConcentrations ''surface''
     = NotImplementedError ''Kinetics::getThirdBodyConcentrations''
         (Some (''Not applicable/implemented for Kinetics object of type '' @ squote ''surface''))
   \<and> default_impl op_getDeltaGibbs ''surface'' = NotImplementedError ''Kinetics::getDeltaGibbs'' None
   \<and> \<not> reports (default_impl op_getDeltaGibbs ''surface'') ''surface''"
    by (simp add: not_applicable_for_def not_implemented_def)
  from r rest show ?thesis by blast
qed

section \<open>Results: connectors\<close>

text \<open>
  Claim C10.  Whatever the factory creates for a model string: when the created connector
  is not a \<^verbatim>\<open>FlowDevice\<close>, \<^verbatim>\<open>newFlowDevice(model, name)\<close> raises the \<^verbatim>\<open>CanteraError\<close>
  whose message names the model; when it is not a \<^verbatim>\<open>WallBase\<close>, \<^verbatim>\<open>newWall(model, name)\<close>
  raises a \<^verbatim>\<open>CanteraError\<close>; and what either returns is the created object, of the kind
  asked for.
\<close>

theorem newFlowDevice_newWall_kind:
  "(newConnector create model nm = Inr c \<and> \<not> is_FlowDevice c \<longrightarrow>
      newFlowDevice create model nm
        = Inl (CanteraError ''newFlowDevice''
                (''Detected incompatible Connector type '' @ squote model))
      \<and> reports (CanteraError ''newFlowDevice''
                (''Detected incompatible Connector type '' @ squote model)) model)
   \<and> (newConnector create model nm = Inr c \<and> \<not> is_WallBase c \<longrightarrow>
      newWall create model nm
        = Inl (CanteraError ''newWall''
                (''Detected incompatible Connector type '' @ squote model)))
   \<and> (newFlowDevice create model nm = Inr d \<longrightarrow>
        is_FlowDevice d \<and> newConnector create model nm = Inr d)
   \<and> (newWall create model nm = Inr w \<longrightarrow>
        is_WallBase w \<and> newConnector create model nm = Inr w)"
proof -
  have rep: "reports (CanteraError ''newFlowDevice''
                (''Detected incompatible Connector type '' @ squote model)) model"
    using occurs_in_squote_end [of model "''Detected incompatible Connector type ''"]
    by simp
  show ?thesis
    using rep
    by (auto simp add: newFlowDevice_def newWall_def dynamic_pointer_cast_def
        split: sum.splits option.splits if_splits)
qed

text \<open>
  With the factory as its constructor fills it: \<^verbatim>\<open>newFlowDevice("Wall", "w")\<close> and
  \<^verbatim>\<open>newWall("Valve", "v")\<close> raise, \<^verbatim>\<open>newFlowDevice("Valve", "v")\<close> and
  \<^verbatim>\<open>newWall("Wall", "w")\<close> return the valve and the wall.
\<close>

theorem newFlowDevice_newWall_kind_witness:
  "newFlowDevice ConnectorFactory_create ''Wall'' ''w''
     = Inl (CanteraError ''newFlowDevice''
             (''Detected incompatible Connector type '' @ squote ''Wall''))
   \<and> newWall ConnectorFactory_create ''Valve'' ''v''
     = Inl (CanteraError ''newWall''
             (''Detected incompatible Connector type '' @ squote ''Valve''))
   \<and> newFlowDevice ConnectorFactory_create ''Valve'' ''v''
     = Inr \<lparr> connector_type = Valve, m_name = ''v'' \<rparr>
   \<and> newWall ConnectorFactory_create ''Wall'' ''w''
     = Inr \<lparr> connector_type = Wall, m_name = ''w'' \<rparr>"
proof -
  have c: "newConnector ConnectorFactory_create ''Wall'' ''w''
             = Inr \<lparr> connector_type = Wall, m_name = ''w'' \<rparr>"
    by (simp add: newConnector_def ConnectorFactory_create_def ConnectorFactory_def)
  have nf: "\<not> is_FlowDevice \<lparr> connector_type = Wall, m_name = ''w'' \<rparr>"
    by simp
  have a: "newFlowDevice ConnectorFactory_create ''Wall'' ''w''
     = Inl (CanteraError ''newFlowDevice''
             (''Detected incompatible Connector type '' @ squote ''Wall''))"
    using newFlowDevice_newWall_kind [of ConnectorFactory_create "''Wall''" "''w''"
       "\<lparr> connector_type = Wall, m_name = ''w'' \<rparr>"] c nf
    by blast
  have rest: "newWall ConnectorFactory_create ''Valve'' ''v''
     = Inl (CanteraError ''newWall''
             (''Detected incompatible Connector type '' @ squote ''Valve''))
   \<and> newFlowDevice ConnectorFactory_create ''Valve'' ''v''
     = Inr \<lparr> connector_type = Valve, m_name = ''v'' \<rparr>
   \<and> newWall ConnectorFactory_create ''Wall'' ''w''
     = Inr \<lparr> connector_type = Wall, m_name = ''w'' \<rparr>"
    by (simp add: newFlowDevice_def newWall_def newConnector_def dynamic_pointer_cast_def
        ConnectorFactory_create_def ConnectorFactory_def)
  from a rest show ?thesis by blast
qed

section \<open>Results: stoichiometry matrices\<close>

lemma addThermo_stoich:
  "m_stoichMatrix (addThermo p s) = m_stoichMatrix s"
  "m_productStoich (addThermo p s) = m_productStoich s"
  "m_reactantStoich (addThermo p s) = m_reactantStoich s"
  by (simp_all add: addThermo_def)

lemma fold_addThermo_stoich:
  "m_stoichMatrix (fold addThermo phases s) = m_stoichMatrix s
   \<and> m_productStoich (fold addThermo phases s) = m_productStoich s
   \<and> m_reactantStoich (fold addThermo phases s) = m_reactantStoich s"
  by (induction phases arbitrary: s) (simp_all add: addThermo_stoich)

lemma map_of_tabulate:
  "map_of (map (\<lambda>x. (x, f x)) xs) y = (if y \<in> set xs then Some (f y) else None)"
  by (induction xs) auto

lemma coeff_absent: "(k, i) \<notin> fst ` set M \<Longrightarrow> coeff M k i = 0"
  by (simp add: coeff_def map_of_eq_None_iff [THEN iffD2])

lemma coeff_matrix_minus: "coeff (matrix_minus P R) k i = coeff P k i - coeff R k i"
proof -
  let ?keys = "remdups (map fst P @ map fst R)"
  have eq: "matrix_minus P R =
      map (\<lambda>x. (x, coeff P (fst x) (snd x) - coeff R (fst x) (snd x))) ?keys"
    by (simp add: matrix_minus_def case_prod_beta)
  show ?thesis
  proof (cases "(k, i) \<in> set ?keys")
    case True
    then show ?thesis
      unfolding eq by (simp add: coeff_def [of "map _ _"] map_of_tabulate)
  next
    case False
    then have "(k, i) \<notin> fst ` set P" and "(k, i) \<notin> fst ` set R" by auto
    then have "coeff P k i = 0" and "coeff R k i = 0" by (simp_all add: coeff_absent)
    with False show ?thesis
      unfolding eq by (simp add: coeff_def [of "map _ _"] map_of_tabulate)
  qed
qed

lemma derived_consistent:
  "m_stoichMatrix s = matrix_minus (m_productStoich s) (m_reactantStoich s) \<Longrightarrow>
     stoich_consistent s"
  by (simp add: stoich_consistent_def netStoichCoeff_def productStoichCoeff_def
      reactantStoichCoeff_def coeff_matrix_minus)

lemma resizeReactions_consistent: "stoich_consistent (resizeReactions s)"
  by (rule derived_consistent) (simp add: resizeReactions_def)

lemma new_manager_consistent: "stoich_consistent (fold addThermo phases Kinetics_new)"
  by (simp add: stoich_consistent_def netStoichCoeff_def productStoichCoeff_def
      reactantStoichCoeff_def fold_addThermo_stoich Kinetics_new_def coeff_def)

text \<open>Every construction call keeps the identity, with or without the resize pass.\<close>

lemma addReaction_consistent:
  assumes "addReaction r resize s = Inr (added, s')" and "stoich_consistent s"
  shows "stoich_consistent s'"
proof (cases "declared_species s r")
  case False
  with assms show ?thesis by (auto simp add: addReaction_def split: if_splits)
next
  case True
  show ?thesis
  proof (cases resize)
    case True
    with \<open>declared_species s r\<close> assms(1) obtain t where "s' = resizeReactions t"
      by (auto simp add: addReaction_def Let_def)
    then show ?thesis by (simp add: resizeReactions_consistent)
  next
    case False
    with \<open>declared_species s r\<close> assms(1)
    have "m_stoichMatrix s' = matrix_minus (m_productStoich s') (m_reactantStoich s')"
      by (auto simp add: addReaction_def Let_def)
    then show ?thesis by (rule derived_consistent)
  qed
qed

lemma run_op_consistent:
  assumes "run_op c s = Inr s'" and "stoich_consistent s"
  shows "stoich_consistent s'"
proof (cases c)
  case (AddReaction r resize)
  with assms(1) obtain added where "addReaction r resize s = Inr (added, s')"
    by (auto split: sum.splits)
  then show ?thesis using assms(2) by (rule addReaction_consistent)
next
  case ResizeReactions
  with assms(1) show ?thesis by (auto simp add: resizeReactions_consistent)
qed

lemma run_ops_consistent:
  "run_ops cs s = Inr s' \<Longrightarrow> stoich_consistent s \<Longrightarrow> stoich_consistent s'"
proof (induction cs arbitrary: s)
  case Nil
  then show ?case by simp
next
  case (Cons c cs)
  from Cons.prems(1) obtain t where t: "run_op c s = Inr t" and rest: "run_ops cs t = Inr s'"
    by (auto split: sum.splits)
  from t Cons.prems(2) have "stoich_consistent t" by (rule run_op_consistent)
  with rest show ?case by (rule Cons.IH)
qed

text \<open>
  Claim C1.  After every sequence of \<^verbatim>\<open>addReaction\<close> and \<^verbatim>\<open>resizeReactions\<close> calls, on a
  manager to which any phases were added, and for every species \<open>k\<close> and every reaction
  \<open>i\<close>, the net stoichiometric coefficient is the product coefficient minus the reactant
  coefficient.
\<close>

theorem net_is_product_minus_reactant:
  assumes "run_ops cs (fold addThermo phases Kinetics_new) = Inr s"
  shows "netStoichCoeff s k i = productStoichCoeff s k i - reactantStoichCoeff s k i"
proof -
  have "stoich_consistent s"
    using assms new_manager_consistent by (rule run_ops_consistent)
  then show ?thesis by (simp add: stoich_consistent_def)
qed

text \<open>
  One phase of two species; the reaction that turns species 0 into species 1 is added
  with \<^verbatim>\<open>resize = false\<close> and no resize pass follows.  The manager is not ready, and the
  net coefficients of reaction 0 are \<open>- 1\<close> for species 0 and \<open>1\<close> for species 1.
\<close>

theorem net_is_product_minus_reactant_witness:
  "\<exists>s. run_ops [AddReaction \<lparr> reactants = [(0, 1)], products = [(1, 1)],
                       reversible = False, duplicate = False \<rparr> False]
          (fold addThermo [\<lparr>name = ''gas'', nSpecies = 2\<rparr>] Kinetics_new) = Inr s
      \<and> \<not> m_ready s
      \<and> productStoichCoeff s 0 0 = 0 \<and> reactantStoichCoeff s 0 0 = 1
      \<and> netStoichCoeff s 0 0 = - 1
      \<and> productStoichCoeff s 1 0 = 1 \<and> reactantStoichCoeff s 1 0 = 0
      \<and> netStoichCoeff s 1 0 = 1"
proof -
  let ?cs = "[AddReaction \<lparr> reactants = [(0, 1)], products = [(1, 1)],
                       reversible = False, duplicate = False \<rparr> False]"
  let ?phases = "[\<lparr>name = ''gas'', nSpecies = 2\<rparr>]"
  obtain s where run: "run_ops ?cs (fold addThermo ?phases Kinetics_new) = Inr s"
    and rdy: "\<not> m_ready s"
    and vals: "productStoichCoeff s 0 0 = 0" "reactantStoichCoeff s 0 0 = 1"
      "productStoichCoeff s 1 0 = 1" "reactantStoichCoeff s 1 0 = 0"
    by (simp add: addReaction_def addThermo_def Kinetics_new_def declared_species_def
        nReactions_def stoich_column_def productStoichCoeff_def reactantStoichCoeff_def
        coeff_def Let_def)
  have n0: "netStoichCoeff s 0 0 = productStoichCoeff s 0 0 - reactantStoichCoeff s 0 0"
    using run by (rule net_is_product_minus_reactant)
  have n1: "netStoichCoeff s 1 0 = productStoichCoeff s 1 0 - reactantStoichCoeff s 1 0"
    using run by (rule net_is_product_minus_reactant)
  from run rdy n0 n1 vals show ?thesis by auto
qed

end
